theory Spec2Isabelle
  imports Complex_Main "HOL-Library.Char_ord" "HOL-Library.List_Lexorder" "HOL-Library.Sublist"
    "HOL-Library.Multiset"
begin

section \<open>The dataset\<close>

text \<open>
  The two scripts, \<^verbatim>\<open>app.py\<close> and \<^verbatim>\<open>streamlit_app.py\<close>, read the table
  \<^verbatim>\<open>AmesHousing.csv\<close> and use four of its columns. A cell of a column is either a
  value or missing (pandas' NaN), so a cell is an \<open>option\<close>. A row of the file is a
  \<open>csv_row\<close>; \<open>load_data\<close> adds the column \<^verbatim>\<open>SalePrice_log\<close>, which gives a \<open>row\<close>.
  A data frame is the list of its rows, in file order. Columns of the file that no
  script reads are left out.
\<close>

record csv_row =
  SalePrice :: "real option"
  Overall_Qual :: "int option"
  Neighborhood :: "string option"
  Garage_Type :: "string option"

record row = csv_row +
  SalePrice_log :: "real option"

type_synonym frame = "row list"

text \<open>The working directory either holds the file or does not.\<close>

datatype csv_file = Absent | Present "csv_row list"

subsection \<open>Column operations of numpy and pandas\<close>

text \<open>
  \<^verbatim>\<open>np.log1p\<close> and \<^verbatim>\<open>np.expm1\<close> on one cell, with their meaning on the real numbers:
  rounding of the floating-point result is not modelled. A missing cell stays missing.
  For a value at or below \<open>-1\<close> numpy yields no finite number (NaN below, \<open>-inf\<close> at
  \<open>-1\<close>); a cell of this model holds finite values only, so that case yields a missing
  cell. A sale price is never negative, so data of the intended kind does not reach it.
\<close>

definition log1p :: "real option \<Rightarrow> real option" where
  "log1p c = (case c of None \<Rightarrow> None
                | Some x \<Rightarrow> if - 1 < x then Some (ln (1 + x)) else None)"

definition expm1 :: "real option \<Rightarrow> real option" where
  "expm1 c = (case c of None \<Rightarrow> None | Some y \<Rightarrow> Some (exp y - 1))"

text \<open>\<^verbatim>\<open>Series.fillna(s)\<close> on one cell.\<close>

definition fillna :: "'a \<Rightarrow> 'a option \<Rightarrow> 'a option" where
  "fillna s c = (case c of None \<Rightarrow> Some s | Some v \<Rightarrow> Some v)"

text \<open>\<^verbatim>\<open>Series.dropna()\<close>: the values of the cells that are not missing, in order.\<close>

definition dropna :: "'a option list \<Rightarrow> 'a list" where
  "dropna cs = [v. Some v \<leftarrow> cs]"

text \<open>\<^verbatim>\<open>Series.unique()\<close>: the distinct cells in order of first appearance; a missing
  cell is one of them when the column has one.\<close>

definition unique :: "'a list \<Rightarrow> 'a list" where
  "unique cs = rev (remdups (rev cs))"

text \<open>\<^verbatim>\<open>Series.min()\<close> and \<^verbatim>\<open>Series.max()\<close> skip missing cells and are NaN when no cell
  has a value.\<close>

definition col_min :: "real option list \<Rightarrow> real option" where
  "col_min cs = (if dropna cs = [] then None else Some (Min (set (dropna cs))))"

definition col_max :: "real option list \<Rightarrow> real option" where
  "col_max cs = (if dropna cs = [] then None else Some (Max (set (dropna cs))))"

text \<open>\<^verbatim>\<open>Series.median()\<close> of the values left after dropping missing cells: the middle
  value of the sorted values, the mean of the two middle ones when their number is even,
  NaN when there is none.\<close>

definition median :: "real list \<Rightarrow> real option" where
  "median vs =
     (let s = sort vs; n = length s
      in if n = 0 then None
         else if odd n then Some (s ! (n div 2))
         else Some ((s ! (n div 2 - 1) + s ! (n div 2)) / 2))"

text \<open>The comparison \<^verbatim>\<open>column == q\<close> of a cell with a value of \<^verbatim>\<open>unique()\<close>: NaN
  equals nothing, not even NaN.\<close>

definition eq_cell :: "'a option \<Rightarrow> 'a option \<Rightarrow> bool" where
  "eq_cell c q = (case c of None \<Rightarrow> False | Some v \<Rightarrow> q = Some v)"

text \<open>The comparison \<^verbatim>\<open>column <= v\<close> of a cell with a number: false on a missing cell.\<close>

definition le_cell :: "real option \<Rightarrow> real \<Rightarrow> bool" where
  "le_cell c v = (case c of None \<Rightarrow> False | Some x \<Rightarrow> x \<le> v)"

text \<open>The log prices of the rows whose cell in column \<open>col\<close> is \<open>k\<close>, missing ones
  dropped.\<close>

definition values_of :: "('r \<Rightarrow> 'k option) \<Rightarrow> ('r \<Rightarrow> real option) \<Rightarrow> 'k \<Rightarrow> 'r list \<Rightarrow> real list" where
  "values_of col y k df = dropna (map y [r \<leftarrow> df. col r = Some k])"

text \<open>
  The list comprehension of the analysis routines,
  \<^verbatim>\<open>[df['SalePrice_log'][df[col] == q].dropna() for q in df[col].unique()]\<close>.
\<close>

definition groups_of :: "(row \<Rightarrow> 'k option) \<Rightarrow> frame \<Rightarrow> real list list" where
  "groups_of col df =
     map (\<lambda>q. dropna (map SalePrice_log [r \<leftarrow> df. eq_cell (col r) q])) (unique (map col df))"

text \<open>
  \<^verbatim>\<open>df.groupby(col)['SalePrice_log'].median()\<close>: one entry per key that occurs in the
  column (rows with a missing key belong to no group), keys in ascending order, each
  with the median of its group.
\<close>

definition groupby_median :: "(row \<Rightarrow> 'k::linorder option) \<Rightarrow> frame \<Rightarrow> ('k \<times> real option) list" where
  "groupby_median col df =
     map (\<lambda>k. (k, median (values_of col SalePrice_log k df)))
       (sort (remdups (dropna (map col df))))"

text \<open>
  \<^verbatim>\<open>Series.sort_values().index\<close>: the keys by ascending value, entries without a value
  last. pandas does not fix the order of keys with equal values; this model keeps
  their earlier order, and no statement below depends on it.
\<close>

definition sort_values_index :: "('k \<times> real option) list \<Rightarrow> 'k list" where
  "sort_values_index s =
     map fst (sort_key snd [(k, v). (k, Some v) \<leftarrow> s]) @ [k. (k, None) \<leftarrow> s]"

text \<open>
  The order seaborn gives the boxes when \<^verbatim>\<open>sns.boxplot\<close> gets no \<^verbatim>\<open>order\<close>: for a
  numeric column, the distinct values that are not missing, ascending.
\<close>

definition categorical_order :: "'k::linorder option list \<Rightarrow> 'k list" where
  "categorical_order cs = sort (remdups (dropna cs))"

section \<open>What a run shows\<close>

text \<open>
  A run of a script is the list of elements it hands to Streamlit, top to bottom, and the
  exception that ended it, if one did. Fixed wording is kept as a string without its
  accents and emoji. Numbers are kept as numbers, not as the formatted digits.
\<close>

datatype test = Normality | Homogeneity

datatype attr = ByQuality | ByNeighborhood | ByGarage

datatype label = Grade int | Name string

text \<open>A box-plot: the boxes from left to right, each with its category and the values
  it summarises, and the rotation of the category labels in degrees (0 unless
  \<^verbatim>\<open>plt.xticks(rotation=...)\<close> is called). Titles, axis labels, sizes and palettes are
  left out.\<close>

record figure =
  boxes :: "(label \<times> real list) list"
  xtick_rotation :: nat

datatype 't element =
    StText string             \<comment> \<open>title, write, subheader, markdown, divider, sidebar text\<close>
  | StWidget string           \<comment> \<open>selectbox, slider, tabs, expander, columns\<close>
  | StError string            \<comment> \<open>\<^verbatim>\<open>st.error\<close>\<close>
  | StInfo string             \<comment> \<open>\<^verbatim>\<open>st.info\<close>\<close>
  | StHeader attr             \<comment> \<open>the heading that opens the analysis of an attribute\<close>
  | PValue test real          \<comment> \<open>the p-value of a diagnostic test, by write or metric\<close>
  | StSuccess test            \<comment> \<open>\<^verbatim>\<open>st.success\<close>: the assumption of this test is met\<close>
  | StWarning "test list"     \<comment> \<open>\<^verbatim>\<open>st.warning\<close>: the assumptions of these tests are violated\<close>
  | AnovaTable 't             \<comment> \<open>\<^verbatim>\<open>st.dataframe(anova_table)\<close>\<close>
  | AnovaP real               \<comment> \<open>metric of \<^verbatim>\<open>anova_table['PR(>F)'][0]\<close>\<close>
  | KruskalHP real real       \<comment> \<open>write of the H statistic and the p-value\<close>
  | KruskalP real             \<comment> \<open>metric of the Kruskal-Wallis p-value\<close>
  | StPyplot figure           \<comment> \<open>\<^verbatim>\<open>st.pyplot(fig)\<close>\<close>

datatype exn = TypeError

type_synonym 't run = "'t element list \<times> exn option"

text \<open>
  The statistics come from scipy and statsmodels. Their numerics are not part of the
  scripts, so a run takes them as a parameter: \<open>'m\<close> is a fitted model, \<open>'t\<close> an ANOVA
  table, each test returns its statistic and its p-value. \<open>ols_fit a df\<close> is
  \<^verbatim>\<open>ols('SalePrice_log ~ Q("<column of a>")', data=df).fit()\<close>, \<open>anova_lm m typ\<close> is
  \<^verbatim>\<open>sm.stats.anova_lm(m, typ=typ)\<close> and \<open>pr_f\<close> reads \<^verbatim>\<open>['PR(>F)'][0]\<close> of a table.
  The calls are taken to return; a test that fails on a degenerate group is outside
  this model.
\<close>

record ('m, 't) stats =
  ols_fit :: "attr \<Rightarrow> frame \<Rightarrow> 'm"
  resid :: "'m \<Rightarrow> real list"
  shapiro :: "real list \<Rightarrow> real \<times> real"
  levene :: "real list list \<Rightarrow> real \<times> real"
  kruskal :: "real list list \<Rightarrow> real \<times> real"
  anova_lm :: "'m \<Rightarrow> nat \<Rightarrow> 't"
  pr_f :: "'t \<Rightarrow> real"

section \<open>load_data\<close>

text \<open>
  Both scripts have the same \<^verbatim>\<open>load_data\<close>, up to the wording of the message:
  \<^verbatim>\<open>
  try:
      df = pd.read_csv('AmesHousing.csv')
      df['SalePrice_log'] = np.log1p(df['SalePrice'])
      df['Garage Type'] = df['Garage Type'].fillna('No Garage')
      return df
  except FileNotFoundError:
      st.error("Arquivo 'AmesHousing.csv' nao encontrado. ...")
      return None
  \<close>
  It returns what it showed and the frame, \<open>None\<close> for Python's \<^verbatim>\<open>None\<close>.
\<close>

definition with_log :: "csv_row \<Rightarrow> row" where
  "with_log r =
     \<lparr>SalePrice = SalePrice r, Overall_Qual = Overall_Qual r,
      Neighborhood = Neighborhood r, Garage_Type = Garage_Type r,
      SalePrice_log = log1p (SalePrice r)\<rparr>"

definition fill_garage :: "row \<Rightarrow> row" where
  "fill_garage r = r\<lparr>Garage_Type := fillna ''No Garage'' (Garage_Type r)\<rparr>"

text \<open>The body of the \<^verbatim>\<open>try\<close> after the file is read: the two column assignments.\<close>

definition transform :: "csv_row list \<Rightarrow> frame" where
  "transform rows = map (\<lambda>r. fill_garage (with_log r)) rows"

definition load_data :: "csv_file \<Rightarrow> 't element list \<times> frame option" where
  "load_data f =
     (case f of
        Present rows \<Rightarrow> ([], Some (transform rows))
      | Absent \<Rightarrow> ([StError ''Arquivo AmesHousing.csv nao encontrado.''], None))"

section \<open>The analysis routines\<close>

text \<open>The branch \<^verbatim>\<open>if p > 0.05: st.success(...) else: st.warning(...)\<close>.\<close>

definition verdict :: "test \<Rightarrow> real \<Rightarrow> 't element" where
  "verdict t p = (if p > 0.05 then StSuccess t else StWarning [t])"

text \<open>The boxes of \<^verbatim>\<open>sns.boxplot(x=col, y='SalePrice_log', data=df, order=order)\<close>.\<close>

definition boxplot :: "(row \<Rightarrow> 'k option) \<Rightarrow> ('k \<Rightarrow> label) \<Rightarrow> 'k list \<Rightarrow> frame \<Rightarrow> (label \<times> real list) list" where
  "boxplot col lab order df = map (\<lambda>k. (lab k, values_of col SalePrice_log k df)) order"

subsection \<open>app.py\<close>

definition app_overall_qual :: "('m, 't) stats \<Rightarrow> frame \<Rightarrow> 't element list" where
  "app_overall_qual lib df =
     (let model = ols_fit lib ByQuality df;
          shapiro_p = snd (shapiro lib (resid lib model));
          groups = groups_of Overall_Qual df;
          levene_p = snd (levene lib groups);
          anova_table = anova_lm lib model 2;
          fig = \<lparr>boxes = boxplot Overall_Qual Grade (categorical_order (map Overall_Qual df)) df,
                 xtick_rotation = 0\<rparr>
      in [StHeader ByQuality,
          StText ''a) Validacao dos Pressupostos da ANOVA'',
          PValue Normality shapiro_p,
          verdict Normality shapiro_p,
          PValue Homogeneity levene_p,
          verdict Homogeneity levene_p,
          StInfo ''Conclusao: todos os pressupostos atendidos, ANOVA tradicional adequada.'',
          StText ''b) Comparacao de Precos com ANOVA'',
          StText ''Tabela da ANOVA:'',
          AnovaTable anova_table,
          StPyplot fig,
          StText ''O p-valor (PR(>F)) proximo de zero indica impacto significativo.''])"

definition app_neighborhood :: "('m, 't) stats \<Rightarrow> frame \<Rightarrow> 't element list" where
  "app_neighborhood lib df =
     (let model = ols_fit lib ByNeighborhood df;
          shapiro_p = snd (shapiro lib (resid lib model));
          groups = groups_of Neighborhood df;
          levene_p = snd (levene lib groups);
          kw = kruskal lib groups;
          neighborhood_order = sort_values_index (groupby_median Neighborhood df);
          fig = \<lparr>boxes = boxplot Neighborhood Name neighborhood_order df,
                 xtick_rotation = 90\<rparr>
      in [StHeader ByNeighborhood,
          StText ''a) Validacao dos Pressupostos e Escolha do Metodo'',
          PValue Normality shapiro_p,
          StWarning [Normality],
          PValue Homogeneity levene_p,
          StWarning [Homogeneity],
          StError ''Conclusao: ANOVA tradicional nao confiavel, Kruskal-Wallis mais adequado.'',
          StText ''b) Comparacao de Precos com Kruskal-Wallis'',
          KruskalHP (fst kw) (snd kw),
          StText ''O p-valor extremamente baixo indica diferenca significativa.'',
          StPyplot fig])"

definition app_garage_type :: "('m, 't) stats \<Rightarrow> frame \<Rightarrow> 't element list" where
  "app_garage_type lib df =
     (let model = ols_fit lib ByGarage df;
          shapiro_p = snd (shapiro lib (resid lib model));
          groups = groups_of Garage_Type df;
          levene_p = snd (levene lib groups);
          anova_table = anova_lm lib model 2;
          garage_order = sort_values_index (groupby_median Garage_Type df);
          fig = \<lparr>boxes = boxplot Garage_Type Name garage_order df, xtick_rotation = 0\<rparr>
      in [StHeader ByGarage,
          StText ''a) Validacao dos Pressupostos da ANOVA'',
          PValue Normality shapiro_p,
          verdict Normality shapiro_p,
          PValue Homogeneity levene_p,
          verdict Homogeneity levene_p,
          StInfo ''Conclusao: apesar da leve violacao da normalidade, ANOVA tradicional.'',
          StText ''b) Comparacao de Precos com ANOVA'',
          StText ''Tabela da ANOVA:'',
          AnovaTable anova_table,
          StPyplot fig])"

text \<open>
  The top level of \<^verbatim>\<open>app.py\<close>. The select box has three options and returns one of
  them; the \<^verbatim>\<open>if/elif\<close> chain compares its string with the three, which is the case
  distinction on \<open>analysis_option\<close>.
\<close>

definition app_dispatch :: "('m, 't) stats \<Rightarrow> attr \<Rightarrow> frame \<Rightarrow> 't element list" where
  "app_dispatch lib analysis_option df =
     (case analysis_option of
        ByQuality \<Rightarrow> app_overall_qual lib df
      | ByNeighborhood \<Rightarrow> app_neighborhood lib df
      | ByGarage \<Rightarrow> app_garage_type lib df)"

definition app_top :: "'t element list" where
  "app_top = [StText ''Tarefa 3 de AEDI: Analise Interativa do Mercado Imobiliario de Ames'',
              StText ''Analise de Variancia (ANOVA) aplicada ao dataset Ames Housing.'']"

definition app_sidebar :: "'t element list" where
  "app_sidebar = [StText ''Selecione a Analise'', StWidget ''selectbox'']"

definition app_main :: "('m, 't) stats \<Rightarrow> csv_file \<Rightarrow> attr \<Rightarrow> 't run" where
  "app_main lib f analysis_option =
     (let (shown, df) = load_data f
      in case df of
           None \<Rightarrow> (app_top @ shown, None)
         | Some d \<Rightarrow>
             (app_top @ shown @ app_sidebar @ app_dispatch lib analysis_option d, None))"

subsection \<open>streamlit_app.py\<close>

definition st_overall_qual :: "('m, 't) stats \<Rightarrow> frame \<Rightarrow> 't element list" where
  "st_overall_qual lib df =
     (let model = ols_fit lib ByQuality df;
          shapiro_p = snd (shapiro lib (resid lib model));
          groups = groups_of Overall_Qual df;
          levene_p = snd (levene lib groups);
          model_fit = ols_fit lib ByQuality df;
          anova_table = anova_lm lib model_fit 2;
          p_value = pr_f lib anova_table;
          fig = \<lparr>boxes = boxplot Overall_Qual Grade (categorical_order (map Overall_Qual df)) df,
                 xtick_rotation = 0\<rparr>
      in [StHeader ByQuality,
          StWidget ''expander'',
          StWidget ''columns'',
          PValue Normality shapiro_p,
          verdict Normality shapiro_p,
          PValue Homogeneity levene_p,
          verdict Homogeneity levene_p,
          StInfo ''Conclusao: todos os pressupostos atendidos, ANOVA tradicional adequada.'',
          AnovaP p_value,
          StText ''A tabela abaixo mostra os resultados detalhados do teste.'',
          AnovaTable anova_table,
          StPyplot fig])"

definition st_neighborhood :: "('m, 't) stats \<Rightarrow> frame \<Rightarrow> 't element list" where
  "st_neighborhood lib df =
     (let model = ols_fit lib ByNeighborhood df;
          shapiro_p = snd (shapiro lib (resid lib model));
          groups = groups_of Neighborhood df;
          levene_p = snd (levene lib groups);
          kruskal_p = snd (kruskal lib groups);
          neighborhood_order = sort_values_index (groupby_median Neighborhood df);
          fig = \<lparr>boxes = boxplot Neighborhood Name neighborhood_order df,
                 xtick_rotation = 90\<rparr>
      in [StHeader ByNeighborhood,
          StWarning [Normality, Homogeneity],
          KruskalP kruskal_p,
          StPyplot fig])"

definition st_garage_type :: "('m, 't) stats \<Rightarrow> frame \<Rightarrow> 't element list" where
  "st_garage_type lib df =
     (let model = ols_fit lib ByGarage df;
          anova_table = anova_lm lib model 2;
          p_value = pr_f lib anova_table;
          garage_order = sort_values_index (groupby_median Garage_Type df);
          fig = \<lparr>boxes = boxplot Garage_Type Name garage_order df, xtick_rotation = 0\<rparr>
      in [StHeader ByGarage,
          AnovaP p_value,
          AnovaTable anova_table,
          StPyplot fig])"

text \<open>The filtered view \<^verbatim>\<open>df[df['SalePrice_log'] <= preco_max]\<close>.\<close>

definition price_filter :: "real \<Rightarrow> frame \<Rightarrow> frame" where
  "price_filter preco_max df = [r \<leftarrow> df. le_cell (SalePrice_log r) preco_max]"

text \<open>
  The top level of \<^verbatim>\<open>streamlit_app.py\<close>. It loads first, shows the title and the
  sidebar, then builds the slider from \<^verbatim>\<open>df['SalePrice_log'].min()\<close> and \<^verbatim>\<open>.max()\<close>;
  only after the view is filtered does it test \<^verbatim>\<open>df is not None\<close>. With \<^verbatim>\<open>df\<close> being
  \<^verbatim>\<open>None\<close> the subscript of the slider's first argument raises \<^verbatim>\<open>TypeError\<close>, which
  nothing catches. \<open>preco_max\<close> is the value the slider returns in this run: the maximum
  of the column until the user moves it. The three \<^verbatim>\<open>with tab\<close> blocks all run, one
  after the other.
\<close>

definition st_top :: "'t element list" where
  "st_top = [StWidget ''columns'',
             StText ''Analise Interativa de Imoveis'',
             StText ''Mercado de Ames, Iowa'',
             StText ''divider'',
             StText ''Parametros'',
             StText ''Use os controles abaixo para filtrar os dados.'']"

definition st_tabs :: "('m, 't) stats \<Rightarrow> frame \<Rightarrow> 't element list" where
  "st_tabs lib df_filtrado =
     StWidget ''tabs''
       # st_overall_qual lib df_filtrado
       @ st_neighborhood lib df_filtrado
       @ st_garage_type lib df_filtrado"

definition st_main :: "('m, 't) stats \<Rightarrow> csv_file \<Rightarrow> real \<Rightarrow> 't run" where
  "st_main lib f preco_max =
     (let (shown, df) = load_data f
      in case df of
           None \<Rightarrow> (shown @ st_top, Some TypeError)
         | Some d \<Rightarrow>
             (let df_filtrado = price_filter preco_max d
              in (shown @ st_top @ [StWidget ''slider''] @ st_tabs lib df_filtrado, None)))"

section \<open>Reading a run\<close>

text \<open>
  The error displays of a run: every \<^verbatim>\<open>st.error\<close> element, and the box in which
  Streamlit shows an exception that the script did not catch.
\<close>

definition is_error :: "'t element \<Rightarrow> bool" where
  "is_error e = (case e of StError _ \<Rightarrow> True | _ \<Rightarrow> False)"

definition error_displays :: "'t run \<Rightarrow> nat" where
  "error_displays r =
     length [e \<leftarrow> fst r. is_error e] + (case snd r of None \<Rightarrow> 0 | Some _ \<Rightarrow> 1)"

text \<open>The analyses a run shows, by their opening headings, and the figures it draws.\<close>

definition headers :: "'t element list \<Rightarrow> attr list" where
  "headers out = [a. StHeader a \<leftarrow> out]"

definition figures :: "'t element list \<Rightarrow> figure list" where
  "figures out = [fig. StPyplot fig \<leftarrow> out]"

text \<open>The verdict shown for a test: met by an \<^verbatim>\<open>st.success\<close>, violated by an
  \<^verbatim>\<open>st.warning\<close> that names it.\<close>

definition shows_met :: "test \<Rightarrow> 't element list \<Rightarrow> bool" where
  "shows_met t out = (StSuccess t \<in> set out)"

definition names_test :: "test \<Rightarrow> 't element \<Rightarrow> bool" where
  "names_test t e = (case e of StWarning ts \<Rightarrow> t \<in> set ts | _ \<Rightarrow> False)"

definition shows_violated :: "test \<Rightarrow> 't element list \<Rightarrow> bool" where
  "shows_violated t out = list_ex (names_test t) out"

text \<open>
  A list of medians is ascending when the medians that exist do not decrease from left
  to right and the boxes without one (no value at all) come last.
\<close>

definition nan_last :: "real option \<Rightarrow> real option \<Rightarrow> bool" where
  "nan_last a b =
     (case b of None \<Rightarrow> True | Some y \<Rightarrow> (case a of None \<Rightarrow> False | Some x \<Rightarrow> x \<le> y))"

definition ascending_medians :: "figure \<Rightarrow> bool" where
  "ascending_medians fig = sorted_wrt nan_last (map (\<lambda>b. median (snd b)) (boxes fig))"

text \<open>The grades under the boxes of a plot by overall quality, left to right.\<close>

definition grade_labels :: "figure \<Rightarrow> int list" where
  "grade_labels fig = [g. (Grade g, vs) \<leftarrow> boxes fig]"

text \<open>The invariants of the dataset, row by row.\<close>

definition invariant :: "frame \<Rightarrow> bool" where
  "invariant df =
     list_all (\<lambda>r. SalePrice_log r = log1p (SalePrice r) \<and> Garage_Type r \<noteq> None) df"

section \<open>Sample inputs\<close>

text \<open>
  A file of three rows: the better grade sold for less, one garage type is missing and
  one sale price is missing. The sample library returns fixed numbers; its p-values of
  the two diagnostic tests are above 0.05.
\<close>

definition sample_csv :: "csv_row list" where
  "sample_csv =
     [\<lparr>SalePrice = Some 200, Overall_Qual = Some 1,
       Neighborhood = Some ''NAmes'', Garage_Type = Some ''Attchd''\<rparr>,
      \<lparr>SalePrice = Some 100, Overall_Qual = Some 2,
       Neighborhood = Some ''Gilbert'', Garage_Type = None\<rparr>,
      \<lparr>SalePrice = None, Overall_Qual = Some 2,
       Neighborhood = Some ''Gilbert'', Garage_Type = Some ''Detchd''\<rparr>]"

text \<open>The first two rows of the sample: no sale price is missing.\<close>

definition priced_csv :: "csv_row list" where
  "priced_csv = take 2 sample_csv"

definition sample_lib :: "(unit, unit) stats" where
  "sample_lib =
     \<lparr>ols_fit = (\<lambda>a df. ()), resid = (\<lambda>m. []),
      shapiro = (\<lambda>xs. (1, 1 / 2)), levene = (\<lambda>gs. (0, 1 / 2)), kruskal = (\<lambda>gs. (0, 1)),
      anova_lm = (\<lambda>m typ. ()), pr_f = (\<lambda>t. 1)\<rparr>"

section \<open>Properties of load_data\<close>

lemma transform_nth:
  "i < length rows \<Longrightarrow> transform rows ! i = fill_garage (with_log (rows ! i))"
  by (simp add: transform_def)

lemma length_transform: "length (transform rows) = length rows"
  by (simp add: transform_def)

lemma load_data_Present: "load_data (Present rows) = ([], Some (transform rows))"
  by (simp add: load_data_def)

lemma expm1_log1p: "- 1 < p \<Longrightarrow> expm1 (log1p (Some p)) = Some p"
  by (simp add: log1p_def expm1_def)

lemma row_of_transform:
  "SalePrice (fill_garage (with_log r)) = SalePrice r"
  "SalePrice_log (fill_garage (with_log r)) = log1p (SalePrice r)"
  "Garage_Type (fill_garage (with_log r)) = fillna ''No Garage'' (Garage_Type r)"
  by (simp_all add: fill_garage_def with_log_def)

text \<open>
  Claim C5. After a successful load the frame has one row per row of the file, with the
  sale price of that row, and its log column is \<open>log1p\<close> of the sale price, in every row;
  a missing price gives a missing log price. On the real numbers \<open>expm1\<close> of the log
  column gives the sale price back, for every price above \<open>-1\<close>. The tolerance of the
  floating-point round trip is not part of this model.
\<close>

theorem load_data_log_column:
  assumes "load_data (Present rows) = (shown, Some df)"
  shows "length df = length rows \<and>
         (\<forall>i<length rows.
            SalePrice (df ! i) = SalePrice (rows ! i) \<and>
            SalePrice_log (df ! i) = log1p (SalePrice (rows ! i)) \<and>
            (\<forall>p. SalePrice (rows ! i) = Some p \<and> - 1 < p \<longrightarrow>
                 expm1 (SalePrice_log (df ! i)) = Some p))"
proof (intro conjI allI impI)
  from assms have df: "df = transform rows"
    by (simp add: load_data_Present)
  show "length df = length rows"
    by (simp add: df length_transform)
  fix i assume i: "i < length rows"
  show "SalePrice (df ! i) = SalePrice (rows ! i)"
    using i by (simp add: df transform_nth row_of_transform)
  show log: "SalePrice_log (df ! i) = log1p (SalePrice (rows ! i))"
    using i by (simp add: df transform_nth row_of_transform)
  fix p assume "SalePrice (rows ! i) = Some p \<and> - 1 < p"
  then show "expm1 (SalePrice_log (df ! i)) = Some p"
    by (simp add: log expm1_log1p)
qed

theorem load_data_log_column_witness:
  "load_data (Present sample_csv) = ([] :: unit element list, Some (transform sample_csv)) \<and>
   SalePrice_log (transform sample_csv ! 0) = Some (ln 201) \<and>
   expm1 (SalePrice_log (transform sample_csv ! 0)) = Some 200"
proof -
  have h: "load_data (Present sample_csv) = ([] :: unit element list, Some (transform sample_csv))"
    by (rule load_data_Present)
  have r: "0 < length sample_csv" "SalePrice (sample_csv ! 0) = Some 200"
    by (simp_all add: sample_csv_def)
  from load_data_log_column [OF h] r
  have "SalePrice_log (transform sample_csv ! 0) = log1p (Some 200)"
    and "expm1 (SalePrice_log (transform sample_csv ! 0)) = Some 200"
    by auto
  then show ?thesis using h by (simp add: log1p_def)
qed

text \<open>
  Claim C6. After a successful load no garage-type cell is missing: every cell that was
  missing in the file holds the label \<open>No Garage\<close>, and every other cell holds the value
  it had in the file.
\<close>

theorem load_data_garage_filled:
  assumes "load_data (Present rows) = (shown, Some df)"
  shows "length df = length rows \<and>
         length [r \<leftarrow> df. Garage_Type r = None] = 0 \<and>
         (\<forall>i<length rows.
            (Garage_Type (rows ! i) = None \<longrightarrow> Garage_Type (df ! i) = Some ''No Garage'') \<and>
            (\<forall>g. Garage_Type (rows ! i) = Some g \<longrightarrow> Garage_Type (df ! i) = Some g))"
proof (intro conjI allI impI)
  from assms have df: "df = transform rows"
    by (simp add: load_data_Present)
  show "length df = length rows"
    by (simp add: df length_transform)
  have "[r \<leftarrow> df. Garage_Type r = None] = []"
    by (simp add: df transform_def row_of_transform fillna_def filter_empty_conv split: option.split)
  then show "length [r \<leftarrow> df. Garage_Type r = None] = 0"
    by simp
  fix i assume i: "i < length rows"
  then have g: "Garage_Type (df ! i) = fillna ''No Garage'' (Garage_Type (rows ! i))"
    by (simp add: df transform_nth row_of_transform)
  show "Garage_Type (df ! i) = Some ''No Garage''" if "Garage_Type (rows ! i) = None"
    using that by (simp add: g fillna_def)
  show "Garage_Type (df ! i) = Some g" if "Garage_Type (rows ! i) = Some g" for g
    using that by (simp add: g fillna_def)
qed

theorem load_data_garage_filled_witness:
  "load_data (Present sample_csv) = ([] :: unit element list, Some (transform sample_csv)) \<and>
   Garage_Type (sample_csv ! 1) = None \<and>
   Garage_Type (transform sample_csv ! 1) = Some ''No Garage'' \<and>
   Garage_Type (sample_csv ! 0) = Some ''Attchd'' \<and>
   Garage_Type (transform sample_csv ! 0) = Some ''Attchd''"
proof -
  have h: "load_data (Present sample_csv) = ([] :: unit element list, Some (transform sample_csv))"
    by (rule load_data_Present)
  have r: "0 < length sample_csv" "1 < length sample_csv"
    "Garage_Type (sample_csv ! 1) = None" "Garage_Type (sample_csv ! 0) = Some ''Attchd''"
    by (simp_all add: sample_csv_def)
  from load_data_garage_filled [OF h] r
  have "Garage_Type (transform sample_csv ! 1) = Some ''No Garage''"
    and "Garage_Type (transform sample_csv ! 0) = Some ''Attchd''"
    by blast+
  then show ?thesis using h r by simp
qed

lemma load_data_Absent:
  "load_data Absent = ([StError ''Arquivo AmesHousing.csv nao encontrado.''], None)"
  by (simp add: load_data_def)

lemmas routine_defs =
  app_overall_qual_def app_neighborhood_def app_garage_type_def
  st_overall_qual_def st_neighborhood_def st_garage_type_def

section \<open>The missing file\<close>

text \<open>
  In \<^verbatim>\<open>app.py\<close> a missing file gives the title, the introduction and the one message of
  \<open>load_data\<close>, and nothing else, whichever analysis is selected.
\<close>

lemma app_main_missing_file:
  "app_main lib Absent analysis_option =
     (app_top @ [StError ''Arquivo AmesHousing.csv nao encontrado.''], None) \<and>
   error_displays (app_main lib Absent analysis_option) = 1 \<and>
   headers (fst (app_main lib Absent analysis_option)) = [] \<and>
   figures (fst (app_main lib Absent analysis_option)) = []"
  by (simp add: app_main_def load_data_Absent error_displays_def is_error_def app_top_def
      headers_def figures_def)

text \<open>
  Claim C1. With the file absent a run shows exactly one error display and no analysis
  output. \<^verbatim>\<open>app.py\<close> does so (lemma \<open>app_main_missing_file\<close>). \<^verbatim>\<open>streamlit_app.py\<close>
  does not: after the message of \<open>load_data\<close> it reads \<^verbatim>\<open>df['SalePrice_log']\<close> for the
  slider before it tests \<^verbatim>\<open>df is not None\<close>, so the run ends in a \<^verbatim>\<open>TypeError\<close> that
  nothing catches and that Streamlit shows as a second error display.
\<close>

theorem st_main_missing_file:
  "st_main lib Absent preco_max =
     (StError ''Arquivo AmesHousing.csv nao encontrado.'' # st_top, Some TypeError) \<and>
   error_displays (st_main lib Absent preco_max) = 2"
  by (simp add: st_main_def load_data_Absent error_displays_def is_error_def st_top_def)

section \<open>Rotation of the category labels\<close>

text \<open>
  Claim C9, as the scripts have it. The category labels are rotated (by 90 degrees) in
  the box-plot of the neighborhood analysis and in no other: the plots by overall quality
  and by garage type keep the default, in both scripts. No routine looks at the number
  of categories.
\<close>

theorem rotation_only_for_neighborhood:
  "map xtick_rotation (figures (app_neighborhood lib df)) = [90] \<and>
   map xtick_rotation (figures (st_neighborhood lib df)) = [90] \<and>
   map xtick_rotation (figures (app_overall_qual lib df)) = [0] \<and>
   map xtick_rotation (figures (st_overall_qual lib df)) = [0] \<and>
   map xtick_rotation (figures (app_garage_type lib df)) = [0] \<and>
   map xtick_rotation (figures (st_garage_type lib df)) = [0]"
  by (simp add: routine_defs figures_def verdict_def Let_def)

text \<open>Claim C9 as stated fails for the garage type: its labels are not rotated.\<close>

theorem garage_labels_not_rotated:
  "map xtick_rotation (figures (app_garage_type sample_lib (transform sample_csv))) = [0] \<and>
   map xtick_rotation (figures (st_garage_type sample_lib (transform sample_csv))) = [0]"
  by (simp add: app_garage_type_def st_garage_type_def figures_def verdict_def Let_def)

section \<open>Which routines run\<close>








section \<open>The verdicts of the diagnostic tests\<close>

lemmas verdict_defs = shows_met_def shows_violated_def names_test_def verdict_def

text \<open>
  Claim C2, as the scripts have it. The routines that branch on the p-value show the
  verdict "met" exactly when the computed p-value is above 0.05 and "violated" exactly
  when it is not: the overall-quality routine of both scripts and the garage-type routine
  of \<^verbatim>\<open>app.py\<close>. The neighborhood routine of both scripts shows "violated" for both
  tests without looking at the p-values. The garage-type routine of
  \<^verbatim>\<open>streamlit_app.py\<close> runs no diagnostic test and shows no verdict.
\<close>

theorem verdict_follows_p_value:
  "(shows_met Normality (app_overall_qual lib df) \<longleftrightarrow>
      0.05 < snd (shapiro lib (resid lib (ols_fit lib ByQuality df)))) \<and>
   (shows_violated Normality (app_overall_qual lib df) \<longleftrightarrow>
      \<not> 0.05 < snd (shapiro lib (resid lib (ols_fit lib ByQuality df)))) \<and>
   (shows_met Homogeneity (app_overall_qual lib df) \<longleftrightarrow>
      0.05 < snd (levene lib (groups_of Overall_Qual df))) \<and>
   (shows_violated Homogeneity (app_overall_qual lib df) \<longleftrightarrow>
      \<not> 0.05 < snd (levene lib (groups_of Overall_Qual df))) \<and>
   (shows_met Normality (st_overall_qual lib df) \<longleftrightarrow>
      0.05 < snd (shapiro lib (resid lib (ols_fit lib ByQuality df)))) \<and>
   (shows_violated Normality (st_overall_qual lib df) \<longleftrightarrow>
      \<not> 0.05 < snd (shapiro lib (resid lib (ols_fit lib ByQuality df)))) \<and>
   (shows_met Homogeneity (st_overall_qual lib df) \<longleftrightarrow>
      0.05 < snd (levene lib (groups_of Overall_Qual df))) \<and>
   (shows_violated Homogeneity (st_overall_qual lib df) \<longleftrightarrow>
      \<not> 0.05 < snd (levene lib (groups_of Overall_Qual df))) \<and>
   (shows_met Normality (app_garage_type lib df) \<longleftrightarrow>
      0.05 < snd (shapiro lib (resid lib (ols_fit lib ByGarage df)))) \<and>
   (shows_violated Normality (app_garage_type lib df) \<longleftrightarrow>
      \<not> 0.05 < snd (shapiro lib (resid lib (ols_fit lib ByGarage df)))) \<and>
   (shows_met Homogeneity (app_garage_type lib df) \<longleftrightarrow>
      0.05 < snd (levene lib (groups_of Garage_Type df))) \<and>
   (shows_violated Homogeneity (app_garage_type lib df) \<longleftrightarrow>
      \<not> 0.05 < snd (levene lib (groups_of Garage_Type df))) \<and>
   (\<forall>t. \<not> shows_met t (app_neighborhood lib df) \<and> shows_violated t (app_neighborhood lib df)) \<and>
   (\<forall>t. \<not> shows_met t (st_neighborhood lib df) \<and> shows_violated t (st_neighborhood lib df)) \<and>
   (\<forall>t. \<not> shows_met t (st_garage_type lib df) \<and> \<not> shows_violated t (st_garage_type lib df))"
proof -
  have q: "(shows_met Normality (app_overall_qual lib df) \<longleftrightarrow>
      0.05 < snd (shapiro lib (resid lib (ols_fit lib ByQuality df)))) \<and>
   (shows_violated Normality (app_overall_qual lib df) \<longleftrightarrow>
      \<not> 0.05 < snd (shapiro lib (resid lib (ols_fit lib ByQuality df)))) \<and>
   (shows_met Homogeneity (app_overall_qual lib df) \<longleftrightarrow>
      0.05 < snd (levene lib (groups_of Overall_Qual df))) \<and>
   (shows_violated Homogeneity (app_overall_qual lib df) \<longleftrightarrow>
      \<not> 0.05 < snd (levene lib (groups_of Overall_Qual df)))"
    by (simp add: app_overall_qual_def verdict_defs Let_def)
  have sq: "(shows_met Normality (st_overall_qual lib df) \<longleftrightarrow>
      0.05 < snd (shapiro lib (resid lib (ols_fit lib ByQuality df)))) \<and>
   (shows_violated Normality (st_overall_qual lib df) \<longleftrightarrow>
      \<not> 0.05 < snd (shapiro lib (resid lib (ols_fit lib ByQuality df)))) \<and>
   (shows_met Homogeneity (st_overall_qual lib df) \<longleftrightarrow>
      0.05 < snd (levene lib (groups_of Overall_Qual df))) \<and>
   (shows_violated Homogeneity (st_overall_qual lib df) \<longleftrightarrow>
      \<not> 0.05 < snd (levene lib (groups_of Overall_Qual df)))"
    by (simp add: st_overall_qual_def verdict_defs Let_def)
  have g: "(shows_met Normality (app_garage_type lib df) \<longleftrightarrow>
      0.05 < snd (shapiro lib (resid lib (ols_fit lib ByGarage df)))) \<and>
   (shows_violated Normality (app_garage_type lib df) \<longleftrightarrow>
      \<not> 0.05 < snd (shapiro lib (resid lib (ols_fit lib ByGarage df)))) \<and>
   (shows_met Homogeneity (app_garage_type lib df) \<longleftrightarrow>
      0.05 < snd (levene lib (groups_of Garage_Type df))) \<and>
   (shows_violated Homogeneity (app_garage_type lib df) \<longleftrightarrow>
      \<not> 0.05 < snd (levene lib (groups_of Garage_Type df)))"
    by (simp add: app_garage_type_def verdict_defs Let_def)
  have n: "\<not> shows_met t (app_neighborhood lib df) \<and> shows_violated t (app_neighborhood lib df)" for t
    by (cases t) (simp_all add: app_neighborhood_def verdict_defs Let_def)
  have sn: "\<not> shows_met t (st_neighborhood lib df) \<and> shows_violated t (st_neighborhood lib df)" for t
    by (cases t) (simp_all add: st_neighborhood_def verdict_defs Let_def)
  have sg: "\<not> shows_met t (st_garage_type lib df) \<and> \<not> shows_violated t (st_garage_type lib df)" for t
    by (simp add: st_garage_type_def verdict_defs Let_def)
  from q sq g n sn sg show ?thesis by blast
qed

theorem verdict_follows_p_value_witness:
  "snd (shapiro sample_lib (resid sample_lib (ols_fit sample_lib ByQuality (transform sample_csv)))) = 1 / 2 \<and>
   shows_met Normality (app_overall_qual sample_lib (transform sample_csv)) \<and>
   \<not> shows_violated Normality (app_overall_qual sample_lib (transform sample_csv)) \<and>
   shows_violated Normality (app_neighborhood sample_lib (transform sample_csv))"
proof -
  have p: "snd (shapiro sample_lib (resid sample_lib (ols_fit sample_lib ByQuality (transform sample_csv)))) = 1 / 2"
    by (simp add: sample_lib_def)
  have "(0.05::real) < 1 / 2" by simp
  with p verdict_follows_p_value [of sample_lib "transform sample_csv"] show ?thesis
    by metis
qed

text \<open>Claim C2 as stated fails for the neighborhood: with both p-values at one half
  the verdicts shown are still "violated".\<close>

theorem neighborhood_verdict_fixed:
  "0.05 < snd (shapiro sample_lib (resid sample_lib (ols_fit sample_lib ByNeighborhood (transform sample_csv)))) \<and>
   \<not> shows_met Normality (app_neighborhood sample_lib (transform sample_csv)) \<and>
   shows_violated Normality (app_neighborhood sample_lib (transform sample_csv)) \<and>
   0.05 < snd (levene sample_lib (groups_of Neighborhood (transform sample_csv))) \<and>
   \<not> shows_met Homogeneity (st_neighborhood sample_lib (transform sample_csv)) \<and>
   shows_violated Homogeneity (st_neighborhood sample_lib (transform sample_csv))"
  by (simp add: sample_lib_def app_neighborhood_def st_neighborhood_def verdict_defs Let_def)

section \<open>The price filter\<close>

lemma set_dropna: "set (dropna cs) = {v. Some v \<in> set cs}"
  by (induction cs) (auto simp: dropna_def split: option.splits)

lemma col_max_upper:
  assumes "col_max cs = Some hi" and "Some x \<in> set cs"
  shows "x \<le> hi"
proof -
  from assms(1) have "hi = Max (set (dropna cs))"
    by (simp add: col_max_def split: if_splits)
  moreover from assms(2) have "x \<in> set (dropna cs)"
    by (simp add: set_dropna)
  ultimately show ?thesis by simp
qed

lemma col_min_lower:
  assumes "col_min cs = Some lo" and "Some x \<in> set cs"
  shows "lo \<le> x"
proof -
  from assms(1) have "lo = Min (set (dropna cs))"
    by (simp add: col_min_def split: if_splits)
  moreover from assms(2) have "x \<in> set (dropna cs)"
    by (simp add: set_dropna)
  ultimately show ?thesis by simp
qed

lemma price_filter_max:
  assumes "col_max (map SalePrice_log df) = Some hi"
  shows "price_filter hi df = [r \<leftarrow> df. SalePrice_log r \<noteq> None]"
  unfolding price_filter_def
proof (rule filter_cong [OF refl])
  fix r assume r: "r \<in> set df"
  show "le_cell (SalePrice_log r) hi = (SalePrice_log r \<noteq> None)"
  proof (cases "SalePrice_log r")
    case None
    then show ?thesis by (simp add: le_cell_def)
  next
    case (Some x)
    with r have "Some x \<in> set (map SalePrice_log df)"
      by (auto simp: image_iff intro: bexI [of _ r])
    from col_max_upper [OF assms this] Some show ?thesis
      by (simp add: le_cell_def)
  qed
qed

lemma price_filter_min:
  assumes "col_min (map SalePrice_log df) = Some lo"
  shows "price_filter lo df = [r \<leftarrow> df. SalePrice_log r = Some lo]"
  unfolding price_filter_def
proof (rule filter_cong [OF refl])
  fix r assume r: "r \<in> set df"
  show "le_cell (SalePrice_log r) lo = (SalePrice_log r = Some lo)"
  proof (cases "SalePrice_log r")
    case None
    then show ?thesis by (simp add: le_cell_def)
  next
    case (Some x)
    with r have "Some x \<in> set (map SalePrice_log df)"
      by (auto simp: image_iff intro: bexI [of _ r])
    from col_min_lower [OF assms this] Some show ?thesis
      by (auto simp: le_cell_def)
  qed
qed

text \<open>
  Claim C8, as the script has it. With the slider at the maximum of the log-price column
  the view holds exactly the rows whose log price is not missing, so it has the row
  count of the unfiltered dataset when no log price is missing. With the slider at the
  minimum the view holds exactly the rows whose log price equals that minimum.
\<close>

theorem price_filter_at_bounds:
  "(col_max (map SalePrice_log df) = Some hi \<longrightarrow>
      price_filter hi df = [r \<leftarrow> df. SalePrice_log r \<noteq> None] \<and>
      (None \<notin> set (map SalePrice_log df) \<longrightarrow> length (price_filter hi df) = length df)) \<and>
   (col_min (map SalePrice_log df) = Some lo \<longrightarrow>
      price_filter lo df = [r \<leftarrow> df. SalePrice_log r = Some lo])"
proof (intro conjI impI)
  assume hi: "col_max (map SalePrice_log df) = Some hi"
  show "price_filter hi df = [r \<leftarrow> df. SalePrice_log r \<noteq> None]"
    by (rule price_filter_max [OF hi])
  assume "None \<notin> set (map SalePrice_log df)"
  then have "\<forall>r\<in>set df. SalePrice_log r \<noteq> None"
    by (metis imageI list.set_map)
  then have "[r \<leftarrow> df. SalePrice_log r \<noteq> None] = df"
    by (rule filter_True)
  then show "length (price_filter hi df) = length df"
    by (simp add: price_filter_max [OF hi])
next
  assume "col_min (map SalePrice_log df) = Some lo"
  then show "price_filter lo df = [r \<leftarrow> df. SalePrice_log r = Some lo]"
    by (rule price_filter_min)
qed

lemma sample_logs:
  "map SalePrice_log (transform sample_csv) = [Some (ln 201), Some (ln 101), None]"
  by (simp add: sample_csv_def transform_def fill_garage_def with_log_def log1p_def)

lemma priced_logs:
  "map SalePrice_log (transform priced_csv) = [Some (ln 201), Some (ln 101)]"
  by (simp add: priced_csv_def sample_csv_def transform_def fill_garage_def with_log_def log1p_def)

lemma sample_max: "col_max (map SalePrice_log (transform sample_csv)) = Some (ln 201)"
  by (simp add: sample_logs col_max_def dropna_def)

lemma priced_bounds:
  "col_max (map SalePrice_log (transform priced_csv)) = Some (ln 201)"
  "col_min (map SalePrice_log (transform priced_csv)) = Some (ln 101)"
  by (simp_all add: priced_logs col_max_def col_min_def dropna_def)

theorem price_filter_at_bounds_witness:
  "col_max (map SalePrice_log (transform priced_csv)) = Some (ln 201) \<and>
   None \<notin> set (map SalePrice_log (transform priced_csv)) \<and>
   length (price_filter (ln 201) (transform priced_csv)) = length (transform priced_csv) \<and>
   col_min (map SalePrice_log (transform priced_csv)) = Some (ln 101) \<and>
   map SalePrice_log (price_filter (ln 101) (transform priced_csv)) = [Some (ln 101)]"
proof -
  have n: "None \<notin> set (map SalePrice_log (transform priced_csv))"
    by (simp add: priced_logs)
  from price_filter_at_bounds [of "transform priced_csv" "ln 201" "ln 101"] priced_bounds n
  have a: "length (price_filter (ln 201) (transform priced_csv)) = length (transform priced_csv)"
    and b: "price_filter (ln 101) (transform priced_csv)
              = [r \<leftarrow> transform priced_csv. SalePrice_log r = Some (ln 101)]"
    by blast+
  have "map SalePrice_log [r \<leftarrow> transform priced_csv. SalePrice_log r = Some (ln 101)] = [Some (ln 101)]"
    by (simp add: priced_csv_def sample_csv_def transform_def fill_garage_def with_log_def log1p_def)
  with a b n priced_bounds show ?thesis by simp
qed

text \<open>Claim C8 as stated fails on a file with a missing sale price: the comparison with
  the maximum is false on the missing log price, and the view has one row less.\<close>

theorem maximum_drops_missing_prices:
  "load_data (Present sample_csv) = ([] :: unit element list, Some (transform sample_csv)) \<and>
   col_max (map SalePrice_log (transform sample_csv)) = Some (ln 201) \<and>
   length (price_filter (ln 201) (transform sample_csv)) = 2 \<and>
   length (transform sample_csv) = 3"
  by (simp add: load_data_def sample_max)
     (simp add: price_filter_def le_cell_def sample_csv_def transform_def fill_garage_def
        with_log_def log1p_def)

section \<open>Invariants of the views\<close>

lemma load_data_Some:
  assumes "load_data f = (shown, Some df)"
  obtains rows where "f = Present rows" and "df = transform rows" and "shown = []"
  using assms by (cases f) (auto simp: load_data_def)

lemma invariant_transform: "invariant (transform rows)"
  by (simp add: invariant_def transform_def list_all_iff row_of_transform fillna_def
      split: option.split)

lemma invariant_filter: "invariant df \<Longrightarrow> invariant (filter P df)"
  by (simp add: invariant_def list_all_iff)

lemma app_main_Present:
  "app_main lib (Present rows) analysis_option =
     (app_top @ app_sidebar @ app_dispatch lib analysis_option (transform rows), None)"
  by (simp add: app_main_def load_data_Present)

lemma st_main_Present:
  "st_main lib (Present rows) preco_max =
     (st_top @ [StWidget ''slider''] @ st_tabs lib (price_filter preco_max (transform rows)), None)"
  by (simp add: st_main_def load_data_Present Let_def)

text \<open>
  Claim C10. After a successful load the frame satisfies the invariants: in every row the
  log column is \<open>log1p\<close> of the sale price and the garage type is not missing. The
  threshold filter selects rows without changing them, so every filtered view satisfies
  them too. \<^verbatim>\<open>app.py\<close> hands the loaded frame to its routine, \<^verbatim>\<open>streamlit_app.py\<close> hands
  the filtered view to its three routines.
\<close>

theorem views_keep_invariants:
  assumes "load_data f = (shown, Some df)"
  shows "invariant df \<and>
         invariant (price_filter preco_max df) \<and>
         subseq (price_filter preco_max df) df \<and>
         app_main lib f analysis_option =
           (app_top @ app_sidebar @ app_dispatch lib analysis_option df, None) \<and>
         st_main lib f preco_max =
           (st_top @ [StWidget ''slider''] @ st_tabs lib (price_filter preco_max df), None)"
proof -
  from assms obtain rows where f: "f = Present rows" and df: "df = transform rows"
    by (rule load_data_Some)
  have "invariant df"
    by (simp add: df invariant_transform)
  moreover from this have "invariant (price_filter preco_max df)"
    unfolding price_filter_def by (rule invariant_filter)
  moreover have "subseq (price_filter preco_max df) df"
    unfolding price_filter_def by (rule subseq_filter_left)
  ultimately show ?thesis
    by (simp add: f df app_main_Present st_main_Present)
qed

theorem views_keep_invariants_witness:
  "load_data (Present sample_csv) = ([] :: unit element list, Some (transform sample_csv)) \<and>
   invariant (transform sample_csv) \<and>
   invariant (price_filter (ln 101) (transform sample_csv)) \<and>
   map SalePrice (price_filter (ln 101) (transform sample_csv)) = [Some 100]"
proof -
  have h: "load_data (Present sample_csv) = ([] :: unit element list, Some (transform sample_csv))"
    by (rule load_data_Present)
  have "map SalePrice (price_filter (ln 101) (transform sample_csv)) = [Some 100]"
    by (simp add: price_filter_def le_cell_def sample_csv_def transform_def fill_garage_def
        with_log_def log1p_def)
  with views_keep_invariants [OF h, where preco_max = "ln 101" and lib = sample_lib
      and analysis_option = ByQuality] h show ?thesis by simp
qed

section \<open>The order of the boxes\<close>

lemma valued_entries:
  "set [(k, v). (k, Some v) \<leftarrow> s] = {(k, v). (k, Some v) \<in> set s}"
  by (induction s) (auto split: option.splits)

lemma unvalued_entries:
  "set [k. (k, None) \<leftarrow> s] = {k. (k, None) \<in> set s}"
  by (induction s) (auto split: option.splits)

lemma mset_sort_values_index: "mset (sort_values_index s) = mset (map fst s)"
proof -
  have "mset (map fst [(k, v). (k, Some v) \<leftarrow> s]) + mset [k. (k, None) \<leftarrow> s] = mset (map fst s)"
    by (induction s) (auto split: option.splits)
  then show ?thesis
    by (simp add: sort_values_index_def)
qed

lemma sorted_wrt_nan_last:
  assumes "sorted xs" and "\<forall>c\<in>set ns. c = None"
  shows "sorted_wrt nan_last (map Some xs @ ns)"
proof -
  have "sorted_wrt nan_last (map Some xs)"
    using assms(1) by (simp add: sorted_wrt_map nan_last_def)
  moreover have "sorted_wrt nan_last ns"
    using assms(2) by (induction ns) (auto simp: nan_last_def)
  moreover have "\<forall>a\<in>set (map Some xs). \<forall>b\<in>set ns. nan_last a b"
    using assms(2) by (auto simp: nan_last_def)
  ultimately show ?thesis
    by (simp add: sorted_wrt_append)
qed

lemma sort_values_index_ascending:
  assumes "\<forall>(k, c)\<in>set s. m k = c"
  shows "sorted_wrt nan_last (map m (sort_values_index s))"
proof -
  let ?vs = "sort_key snd [(k, v). (k, Some v) \<leftarrow> s]"
  let ?ns = "map m [k. (k, None) \<leftarrow> s]"
  have a: "map m (map fst ?vs) = map Some (map snd ?vs)"
    using assms by (auto simp: valued_entries)
  have b: "\<forall>c\<in>set ?ns. c = None"
    using assms by (auto simp: unvalued_entries)
  have c: "sorted (map snd ?vs)"
    by (rule sorted_sort_key)
  have "map m (sort_values_index s) = map Some (map snd ?vs) @ ?ns"
    by (simp only: sort_values_index_def map_append a)
  with sorted_wrt_nan_last [OF c b] show ?thesis
    by (simp only:)
qed

lemma median_order_ascending:
  "ascending_medians
     \<lparr>boxes = boxplot col lab (sort_values_index (groupby_median col df)) df, xtick_rotation = n\<rparr>"
proof -
  have "sorted_wrt nan_last
          (map (\<lambda>k. median (values_of col SalePrice_log k df))
             (sort_values_index (groupby_median col df)))"
    by (rule sort_values_index_ascending) (auto simp: groupby_median_def)
  then show ?thesis
    by (simp add: ascending_medians_def boxplot_def comp_def)
qed

lemma median_order_keys:
  "mset (map fst (boxplot col lab (sort_values_index (groupby_median col df)) df))
     = mset (map lab (remdups (dropna (map col df))))"
proof -
  have "mset (sort_values_index (groupby_median col df)) = mset (remdups (dropna (map col df)))"
    by (simp add: mset_sort_values_index groupby_median_def comp_def)
  then have "mset (map lab (sort_values_index (groupby_median col df)))
               = mset (map lab (remdups (dropna (map col df))))"
    by (metis mset_map)
  then show ?thesis
    by (simp add: boxplot_def comp_def)
qed

lemma figures_routines:
  "figures (app_overall_qual lib df) =
     [\<lparr>boxes = boxplot Overall_Qual Grade (categorical_order (map Overall_Qual df)) df,
       xtick_rotation = 0\<rparr>]"
  "figures (st_overall_qual lib df) =
     [\<lparr>boxes = boxplot Overall_Qual Grade (categorical_order (map Overall_Qual df)) df,
       xtick_rotation = 0\<rparr>]"
  "figures (app_neighborhood lib df) =
     [\<lparr>boxes = boxplot Neighborhood Name (sort_values_index (groupby_median Neighborhood df)) df,
       xtick_rotation = 90\<rparr>]"
  "figures (st_neighborhood lib df) =
     [\<lparr>boxes = boxplot Neighborhood Name (sort_values_index (groupby_median Neighborhood df)) df,
       xtick_rotation = 90\<rparr>]"
  "figures (app_garage_type lib df) =
     [\<lparr>boxes = boxplot Garage_Type Name (sort_values_index (groupby_median Garage_Type df)) df,
       xtick_rotation = 0\<rparr>]"
  "figures (st_garage_type lib df) =
     [\<lparr>boxes = boxplot Garage_Type Name (sort_values_index (groupby_median Garage_Type df)) df,
       xtick_rotation = 0\<rparr>]"
  by (simp_all add: routine_defs figures_def verdict_def Let_def)

lemma grade_labels_boxplot: "grade_labels \<lparr>boxes = boxplot col Grade ks df, xtick_rotation = n\<rparr> = ks"
  by (induction ks) (simp_all add: grade_labels_def boxplot_def)

text \<open>
  Claim C3, as the scripts have it. The box-plots by neighborhood and by garage type, in
  both scripts, have one box per category of the column and place them by ascending
  median of the log price; a category without any log price comes last. The box-plot by
  overall quality gets no order from the scripts, so its boxes stand by ascending grade.
\<close>

theorem boxes_in_median_order:
  "list_all ascending_medians (figures (app_neighborhood lib df)) \<and>
   list_all ascending_medians (figures (st_neighborhood lib df)) \<and>
   list_all ascending_medians (figures (app_garage_type lib df)) \<and>
   list_all ascending_medians (figures (st_garage_type lib df)) \<and>
   list_all (\<lambda>fig. mset (map fst (boxes fig)) = mset (map Name (remdups (dropna (map Neighborhood df)))))
     (figures (app_neighborhood lib df) @ figures (st_neighborhood lib df)) \<and>
   list_all (\<lambda>fig. mset (map fst (boxes fig)) = mset (map Name (remdups (dropna (map Garage_Type df)))))
     (figures (app_garage_type lib df) @ figures (st_garage_type lib df)) \<and>
   list_all (\<lambda>fig. grade_labels fig = sort (remdups (dropna (map Overall_Qual df))))
     (figures (app_overall_qual lib df) @ figures (st_overall_qual lib df))"
proof -
  have asc: "list_all ascending_medians (figures (app_neighborhood lib df))"
    "list_all ascending_medians (figures (st_neighborhood lib df))"
    "list_all ascending_medians (figures (app_garage_type lib df))"
    "list_all ascending_medians (figures (st_garage_type lib df))"
    by (simp_all add: figures_routines median_order_ascending)
  have nb: "list_all (\<lambda>fig. mset (map fst (boxes fig))
                  = mset (map Name (remdups (dropna (map Neighborhood df)))))
     (figures (app_neighborhood lib df) @ figures (st_neighborhood lib df))"
    using median_order_keys [of Neighborhood Name df] by (simp add: figures_routines)
  have gt: "list_all (\<lambda>fig. mset (map fst (boxes fig))
                  = mset (map Name (remdups (dropna (map Garage_Type df)))))
     (figures (app_garage_type lib df) @ figures (st_garage_type lib df))"
    using median_order_keys [of Garage_Type Name df] by (simp add: figures_routines)
  have oq: "list_all (\<lambda>fig. grade_labels fig = sort (remdups (dropna (map Overall_Qual df))))
     (figures (app_overall_qual lib df) @ figures (st_overall_qual lib df))"
    by (simp add: figures_routines grade_labels_boxplot categorical_order_def)
  from asc nb gt oq show ?thesis by blast
qed

lemma sample_quality_boxes:
  "figures (app_overall_qual sample_lib (transform sample_csv)) =
     [\<lparr>boxes = [(Grade 1, [ln 201]), (Grade 2, [ln 101])], xtick_rotation = 0\<rparr>]"
  by (simp add: figures_routines)
     (simp add: boxplot_def categorical_order_def values_of_def dropna_def sample_csv_def
        transform_def fill_garage_def with_log_def log1p_def)

text \<open>Claim C3 as stated fails for the overall quality: where grade 1 sold for more
  than grade 2, the box of grade 1 still stands first.\<close>

theorem quality_boxes_by_grade:
  "figures (app_overall_qual sample_lib (transform sample_csv)) =
     [\<lparr>boxes = [(Grade 1, [ln 201]), (Grade 2, [ln 101])], xtick_rotation = 0\<rparr>] \<and>
   median [ln 201] = Some (ln 201) \<and> median [ln 101] = Some (ln 101) \<and> ln 101 < (ln 201 :: real) \<and>
   \<not> list_all ascending_medians (figures (app_overall_qual sample_lib (transform sample_csv)))"
  by (simp add: sample_quality_boxes ascending_medians_def median_def nan_last_def)

theorem boxes_in_median_order_witness:
  "map (\<lambda>fig. map fst (boxes fig)) (figures (app_neighborhood sample_lib (transform sample_csv)))
     = [[Name ''Gilbert'', Name ''NAmes'']] \<and>
   list_all ascending_medians (figures (app_neighborhood sample_lib (transform sample_csv))) \<and>
   list_all (\<lambda>fig. grade_labels fig = [1, 2])
     (figures (app_overall_qual sample_lib (transform sample_csv)))"
proof -
  have k: "sort (remdups (dropna (map Overall_Qual (transform sample_csv)))) = [1, 2]"
    by (simp add: dropna_def sample_csv_def transform_def fill_garage_def with_log_def)
  have b: "map (\<lambda>fig. map fst (boxes fig)) (figures (app_neighborhood sample_lib (transform sample_csv)))
     = [[Name ''Gilbert'', Name ''NAmes'']]"
    by (simp add: figures_routines)
       (simp add: boxplot_def sort_values_index_def groupby_median_def values_of_def dropna_def
          median_def sample_csv_def transform_def fill_garage_def with_log_def log1p_def)
  from boxes_in_median_order [of sample_lib "transform sample_csv"] k b show ?thesis
    by simp
qed

section \<open>The omnibus tests\<close>

lemma unique_keys: "distinct (unique cs)" "set (unique cs) = set cs"
  by (simp_all add: unique_def)

lemma eq_cell_Some: "eq_cell c (Some k) \<longleftrightarrow> c = Some k"
  by (auto simp: eq_cell_def split: option.splits)

lemma eq_cell_None: "\<not> eq_cell c None"
  by (simp add: eq_cell_def split: option.splits)

lemma groups_of_by_key:
  "groups_of col df =
     map (\<lambda>q. case q of None \<Rightarrow> [] | Some k \<Rightarrow> values_of col SalePrice_log k df)
       (unique (map col df))"
  unfolding groups_of_def
proof (rule map_cong [OF refl])
  fix q
  show "dropna (map SalePrice_log [r \<leftarrow> df. eq_cell (col r) q])
          = (case q of None \<Rightarrow> [] | Some k \<Rightarrow> values_of col SalePrice_log k df)"
    by (cases q) (simp_all add: eq_cell_Some eq_cell_None values_of_def dropna_def)
qed

lemma dropna_concat:
  "dropna (map y (concat xss)) = concat (map (\<lambda>xs. dropna (map y xs)) xss)"
  by (induction xss) (simp_all add: dropna_def)

lemma mset_dropna: "mset (dropna cs) = image_mset the (filter_mset (\<lambda>c. c \<noteq> None) (mset cs))"
  by (induction cs) (auto simp: dropna_def)

lemma mset_dropna_cong:
  assumes "mset xs = mset ys"
  shows "mset (dropna (map y xs)) = mset (dropna (map y ys))"
proof -
  from assms have "mset (map y xs) = mset (map y ys)"
    by (metis mset_map)
  then show ?thesis
    by (simp only: mset_dropna)
qed

lemma mset_rows_by_key:
  assumes "distinct qs"
  shows "mset (concat (map (\<lambda>q. [r \<leftarrow> xs. eq_cell (f r) q]) qs))
           = mset [r \<leftarrow> xs. f r \<noteq> None \<and> f r \<in> set qs]"
  using assms
proof (induction qs)
  case Nil
  then show ?case by simp
next
  case (Cons q qs)
  have "mset [r \<leftarrow> xs. eq_cell (f r) q] + mset [r \<leftarrow> xs. f r \<noteq> None \<and> f r \<in> set qs]
          = mset [r \<leftarrow> xs. f r \<noteq> None \<and> f r \<in> set (q # qs)]"
    using Cons.prems by (induction xs) (auto simp: eq_cell_def split: option.splits)
  with Cons show ?case by simp
qed

lemma mset_groups_of:
  "mset (concat (groups_of col df)) = mset (dropna (map SalePrice_log [r \<leftarrow> df. col r \<noteq> None]))"
proof -
  let ?qs = "unique (map col df)"
  have "[r \<leftarrow> df. col r \<noteq> None \<and> col r \<in> set ?qs] = [r \<leftarrow> df. col r \<noteq> None]"
    by (rule filter_cong) (auto simp: unique_keys)
  with mset_rows_by_key [OF unique_keys(1), where xs = df and f = col and cs1 = "map col df"]
  have "mset (concat (map (\<lambda>q. [r \<leftarrow> df. eq_cell (col r) q]) ?qs)) = mset [r \<leftarrow> df. col r \<noteq> None]"
    by (simp only:)
  then have "mset (dropna (map SalePrice_log (concat (map (\<lambda>q. [r \<leftarrow> df. eq_cell (col r) q]) ?qs))))
               = mset (dropna (map SalePrice_log [r \<leftarrow> df. col r \<noteq> None]))"
    by (rule mset_dropna_cong)
  then show ?thesis
    by (simp add: groups_of_def dropna_concat comp_def)
qed

text \<open>
  Claim C7. The routines of the parametric path (overall quality and garage type, in both
  scripts) show the table that \<open>anova_lm\<close> returns with \<open>typ = 2\<close> for the model
  fitted on the attribute. The routine of the non-parametric path (neighborhood) shows
  the Kruskal-Wallis result computed from the groups that also went to the Levene test.
  These groups are the log prices split by neighborhood, missing log prices dropped:
  one group per distinct cell of the column, and together they hold every log price of
  a row with a neighborhood exactly once. What the library computes from its arguments
  is a parameter of the model.
\<close>

theorem omnibus_tests:
  "AnovaTable (anova_lm lib (ols_fit lib ByQuality df) 2) \<in> set (app_overall_qual lib df) \<and>
   AnovaTable (anova_lm lib (ols_fit lib ByQuality df) 2) \<in> set (st_overall_qual lib df) \<and>
   AnovaTable (anova_lm lib (ols_fit lib ByGarage df) 2) \<in> set (app_garage_type lib df) \<and>
   AnovaTable (anova_lm lib (ols_fit lib ByGarage df) 2) \<in> set (st_garage_type lib df) \<and>
   KruskalHP (fst (kruskal lib (groups_of Neighborhood df)))
             (snd (kruskal lib (groups_of Neighborhood df))) \<in> set (app_neighborhood lib df) \<and>
   KruskalP (snd (kruskal lib (groups_of Neighborhood df))) \<in> set (st_neighborhood lib df) \<and>
   PValue Homogeneity (snd (levene lib (groups_of Neighborhood df))) \<in> set (app_neighborhood lib df) \<and>
   groups_of Neighborhood df =
     map (\<lambda>q. case q of None \<Rightarrow> [] | Some k \<Rightarrow> values_of Neighborhood SalePrice_log k df)
       (unique (map Neighborhood df)) \<and>
   distinct (unique (map Neighborhood df)) \<and>
   set (unique (map Neighborhood df)) = set (map Neighborhood df) \<and>
   mset (concat (groups_of Neighborhood df))
     = mset (dropna (map SalePrice_log [r \<leftarrow> df. Neighborhood r \<noteq> None]))"
proof -
  have "AnovaTable (anova_lm lib (ols_fit lib ByQuality df) 2) \<in> set (app_overall_qual lib df)"
    "AnovaTable (anova_lm lib (ols_fit lib ByQuality df) 2) \<in> set (st_overall_qual lib df)"
    "AnovaTable (anova_lm lib (ols_fit lib ByGarage df) 2) \<in> set (app_garage_type lib df)"
    "AnovaTable (anova_lm lib (ols_fit lib ByGarage df) 2) \<in> set (st_garage_type lib df)"
    by (simp_all add: routine_defs Let_def)
  moreover have
    "KruskalHP (fst (kruskal lib (groups_of Neighborhood df)))
               (snd (kruskal lib (groups_of Neighborhood df))) \<in> set (app_neighborhood lib df)"
    "KruskalP (snd (kruskal lib (groups_of Neighborhood df))) \<in> set (st_neighborhood lib df)"
    "PValue Homogeneity (snd (levene lib (groups_of Neighborhood df))) \<in> set (app_neighborhood lib df)"
    by (simp_all add: routine_defs Let_def)
  moreover note groups_of_by_key [of Neighborhood df] unique_keys [of "map Neighborhood df"]
    mset_groups_of [of Neighborhood df]
  ultimately show ?thesis by blast
qed

theorem omnibus_tests_witness:
  "groups_of Neighborhood (transform sample_csv) = [[ln 201], [ln 101]] \<and>
   KruskalHP 0 1 \<in> set (app_neighborhood sample_lib (transform sample_csv)) \<and>
   AnovaTable () \<in> set (app_garage_type sample_lib (transform sample_csv))"
proof -
  have g: "groups_of Neighborhood (transform sample_csv) = [[ln 201], [ln 101]]"
    by (simp add: groups_of_def unique_def eq_cell_def dropna_def sample_csv_def
        transform_def fill_garage_def with_log_def log1p_def)
  from omnibus_tests [of sample_lib "transform sample_csv"]
  have "KruskalHP (fst (kruskal sample_lib (groups_of Neighborhood (transform sample_csv))))
                  (snd (kruskal sample_lib (groups_of Neighborhood (transform sample_csv))))
          \<in> set (app_neighborhood sample_lib (transform sample_csv))"
    and "AnovaTable (anova_lm sample_lib (ols_fit sample_lib ByGarage (transform sample_csv)) 2)
          \<in> set (app_garage_type sample_lib (transform sample_csv))"
    by blast+
  then show ?thesis
    using g by (simp add: sample_lib_def)
qed

end
